theory Spec2Isabelle
  imports Main
begin

section \<open>Python strings\<close>

text \<open>
  A Python \<open>str\<close> is a sequence of Unicode code points, so it is modelled as a list of
  natural numbers. \<open>ustr\<close> reads an ASCII literal of the source into that type.
\<close>

type_synonym pystr = "nat list"

definition cp :: "char \<Rightarrow> nat" where
  "cp c = of_char c"

definition ustr :: "string \<Rightarrow> pystr" where
  "ustr s = map cp s"

text \<open>
  The tables of the Python runtime that \<open>d.py\<close> consults but does not contain. Below
  code point 128 every table is written out; from 128 on the answer is taken from this
  record, so that a theorem holds whatever the installed Unicode database says.
  \<^item> \<open>isalnum_hi\<close>: \<open>str.isalnum\<close> of a single character (the alphanumeric part of the
    regular expression class \<open>\w\<close>);
  \<^item> \<open>lower_hi\<close>: \<open>str.lower\<close> of a single character;
  \<^item> \<open>nfkc_rejects\<close>: the NFKC check of \<open>urllib.parse\<close> on a non-ASCII network location
    (it raises \<open>ValueError\<close>);
  \<^item> \<open>bracket_rejects\<close>: the validation by \<open>urllib.parse\<close> of a network location that
    holds both \<open>[\<close> and \<open>]\<close> (it raises \<open>ValueError\<close>).
\<close>

record pylib =
  isalnum_hi :: "nat \<Rightarrow> bool"
  lower_hi :: "nat \<Rightarrow> pystr"
  nfkc_rejects :: "pystr \<Rightarrow> bool"
  bracket_rejects :: "pystr \<Rightarrow> bool"

definition ascii_alpha :: "nat \<Rightarrow> bool" where
  "ascii_alpha c = (65 \<le> c \<and> c \<le> 90 \<or> 97 \<le> c \<and> c \<le> 122)"

definition ascii_digit :: "nat \<Rightarrow> bool" where
  "ascii_digit c = (48 \<le> c \<and> c \<le> 57)"

definition isalnum :: "pylib \<Rightarrow> nat \<Rightarrow> bool" where
  "isalnum L c = (if c < 128 then ascii_alpha c \<or> ascii_digit c else isalnum_hi L c)"

text \<open>The class \<open>\w\<close> of a \<open>str\<close> pattern: alphanumeric in Unicode, or the underscore.\<close>

definition word_char :: "pylib \<Rightarrow> nat \<Rightarrow> bool" where
  "word_char L c = (isalnum L c \<or> c = cp CHR ''_'')"

text \<open>The characters that \<open>[^\w\-.]\<close> does not match.\<close>

definition name_char :: "pylib \<Rightarrow> nat \<Rightarrow> bool" where
  "name_char L c = (word_char L c \<or> c = cp CHR ''-'' \<or> c = cp CHR ''.'')"

text \<open>The set \<open>[A-Za-z0-9_.-]\<close> of the specification.\<close>

definition ascii_name_char :: "nat \<Rightarrow> bool" where
  "ascii_name_char c =
     (ascii_alpha c \<or> ascii_digit c \<or> c = cp CHR ''_'' \<or> c = cp CHR ''-'' \<or> c = cp CHR ''.'')"

text \<open>\<open>str.isspace\<close> of one character: the whitespace that \<open>str.strip()\<close> removes.\<close>

definition isspace :: "nat \<Rightarrow> bool" where
  "isspace c =
     (9 \<le> c \<and> c \<le> 13 \<or> 28 \<le> c \<and> c \<le> 32 \<or> c = 133 \<or> c = 160 \<or> c = 5760
      \<or> 8192 \<le> c \<and> c \<le> 8202 \<or> c = 8232 \<or> c = 8233 \<or> c = 8239 \<or> c = 8287
      \<or> c = 12288)"

definition lstrip_with :: "(nat \<Rightarrow> bool) \<Rightarrow> pystr \<Rightarrow> pystr" where
  "lstrip_with p s = dropWhile p s"

definition rstrip_with :: "(nat \<Rightarrow> bool) \<Rightarrow> pystr \<Rightarrow> pystr" where
  "rstrip_with p s = rev (dropWhile p (rev s))"

definition strip :: "pystr \<Rightarrow> pystr" where
  "strip s = rstrip_with isspace (lstrip_with isspace s)"

text \<open>
  \<open>re.sub(r"[...]+", repl, s)\<close> for a character class: scanning from the left, every run
  of matching characters is consumed greedily and replaced by \<open>repl\<close>.
\<close>

function re_sub_runs :: "(nat \<Rightarrow> bool) \<Rightarrow> pystr \<Rightarrow> pystr \<Rightarrow> pystr" where
  "re_sub_runs m repl [] = []"
| "re_sub_runs m repl (c # cs) =
     (if m c then repl @ re_sub_runs m repl (dropWhile m cs)
      else c # re_sub_runs m repl cs)"
  by pat_completeness auto
termination
  by (relation "measure (\<lambda>(m, repl, s). length s)")
     (auto simp: length_dropWhile_le less_Suc_eq_le)

section \<open>safe_filename\<close>

text \<open>
  \<^verbatim>\<open>
  def safe_filename(name: str, default: str = "file") -> str:
      name = name.strip()
      name = re.sub(r"[^\w\-.]+", "_", name)
      return name or default
  \<close>
\<close>

definition safe_filename :: "pylib \<Rightarrow> pystr \<Rightarrow> pystr \<Rightarrow> pystr" where
  "safe_filename L name dflt =
     (let name1 = strip name;
          name2 = re_sub_runs (\<lambda>c. \<not> name_char L c) (ustr ''_'') name1
      in if name2 = [] then dflt else name2)"

section \<open>Exceptions\<close>

text \<open>
  The exceptions a run of \<open>d.py\<close> can end in. \<open>RequestException\<close> stands for
  \<open>requests.RequestException\<close> and all its subclasses (connection errors, timeouts and the
  \<open>HTTPError\<close> of \<open>raise_for_status\<close>); its argument is the text of the cause. \<open>OSError\<close>
  stands for the exceptions of a refused file-system call, all subclasses of the built-in
  \<open>OSError\<close>; its argument is the name of the subclass.
\<close>

datatype py_exception =
    NameError pystr
  | ValueError pystr
  | RequestException pystr
  | OSError pystr

section \<open>More string operations\<close>

text \<open>\<open>s.find(c)\<close> and \<open>s.rfind(c)\<close> for a one-character \<open>c\<close>; \<open>None\<close> is Python's \<open>-1\<close>.\<close>

definition find_char :: "nat \<Rightarrow> pystr \<Rightarrow> nat option" where
  "find_char c s = (if c \<in> set s then Some (length (takeWhile (\<lambda>x. x \<noteq> c) s)) else None)"

definition rfind_char :: "nat \<Rightarrow> pystr \<Rightarrow> nat option" where
  "rfind_char c s =
     (case find_char c (rev s) of None \<Rightarrow> None | Some j \<Rightarrow> Some (length s - 1 - j))"

text \<open>\<open>s.split(c, 1)\<close> as a pair, used by the library only where \<open>c in s\<close>.\<close>

definition split_once :: "nat \<Rightarrow> pystr \<Rightarrow> pystr \<times> pystr" where
  "split_once c s = (takeWhile (\<lambda>x. x \<noteq> c) s, drop 1 (dropWhile (\<lambda>x. x \<noteq> c) s))"

text \<open>\<open>s.split(c)\<close>: always at least one part.\<close>

fun split_on :: "nat \<Rightarrow> pystr \<Rightarrow> pystr list" where
  "split_on c [] = [[]]"
| "split_on c (x # xs) =
     (if x = c then [] # split_on c xs
      else (case split_on c xs of [] \<Rightarrow> [[x]] | p # ps \<Rightarrow> (x # p) # ps))"

text \<open>\<open>sep.join(parts)\<close>.\<close>

fun join_with :: "pystr \<Rightarrow> pystr list \<Rightarrow> pystr" where
  "join_with sep [] = []"
| "join_with sep [p] = p"
| "join_with sep (p # q # ps) = p @ sep @ join_with sep (q # ps)"

definition endswith :: "pystr \<Rightarrow> pystr \<Rightarrow> bool" where
  "endswith s suffix =
     (length suffix \<le> length s \<and> drop (length s - length suffix) s = suffix)"

definition lower_char :: "pylib \<Rightarrow> nat \<Rightarrow> pystr" where
  "lower_char L c =
     (if c < 128 then [if 65 \<le> c \<and> c \<le> 90 then c + 32 else c] else lower_hi L c)"

definition lower :: "pylib \<Rightarrow> pystr \<Rightarrow> pystr" where
  "lower L s = concat (map (lower_char L) s)"

text \<open>\<open>str(n)\<close> of an integer, for the f-string of \<open>guess_css_name\<close>.\<close>

function str_nat :: "nat \<Rightarrow> pystr" where
  "str_nat n = (if n < 10 then [48 + n] else str_nat (n div 10) @ [48 + n mod 10])"
  by pat_completeness auto
termination
  by (relation "measure (\<lambda>n. n)") auto

definition str_int :: "int \<Rightarrow> pystr" where
  "str_int i = (if i < 0 then cp CHR ''-'' # str_nat (nat (- i)) else str_nat (nat i))"

section \<open>urllib.parse\<close>

text \<open>
  \<open>d.py\<close> calls \<open>urlparse\<close>, \<open>urljoin\<close> and \<open>urldefrag\<close> of the standard library. They are
  not part of the repository; the definitions of this section follow the library's
  source (CPython 3.12, \<open>Lib/urllib/parse.py\<close>) function by function, with
  \<open>allow_fragments\<close> at its default \<open>True\<close>, which is how \<open>d.py\<close> calls them.
  \<open>ValueError\<close> is what the library raises on a malformed network location.
\<close>

definition uses_relative :: "pystr list" where
  "uses_relative = map ustr
     ['''', ''ftp'', ''http'', ''gopher'', ''nntp'', ''imap'', ''wais'', ''file'', ''https'',
      ''shttp'', ''mms'', ''prospero'', ''rtsp'', ''rtsps'', ''rtspu'', ''sftp'', ''svn'',
      ''svn+ssh'', ''ws'', ''wss'']"

definition uses_netloc :: "pystr list" where
  "uses_netloc = map ustr
     ['''', ''ftp'', ''http'', ''gopher'', ''nntp'', ''telnet'', ''imap'', ''wais'', ''file'',
      ''mms'', ''https'', ''shttp'', ''snews'', ''prospero'', ''rtsp'', ''rtsps'', ''rtspu'',
      ''rsync'', ''svn'', ''svn+ssh'', ''sftp'', ''nfs'', ''git'', ''git+ssh'', ''ws'', ''wss'',
      ''itms-services'']"

definition uses_params :: "pystr list" where
  "uses_params = map ustr
     ['''', ''ftp'', ''hdl'', ''prospero'', ''http'', ''imap'', ''https'', ''shttp'', ''rtsp'',
      ''rtsps'', ''rtspu'', ''sip'', ''sips'', ''mms'', ''sftp'', ''tel'']"

definition scheme_char :: "nat \<Rightarrow> bool" where
  "scheme_char c =
     (ascii_alpha c \<or> ascii_digit c \<or> c = cp CHR ''+'' \<or> c = cp CHR ''-'' \<or> c = cp CHR ''.'')"

text \<open>The characters U+0000 to U+0020 that \<open>urlsplit\<close> strips, and tab, CR, LF that it deletes.\<close>

definition c0_or_space :: "nat \<Rightarrow> bool" where
  "c0_or_space c = (c \<le> 32)"

definition unsafe_url_byte :: "nat \<Rightarrow> bool" where
  "unsafe_url_byte c = (c = 9 \<or> c = 13 \<or> c = 10)"

definition netloc_delim :: "nat \<Rightarrow> bool" where
  "netloc_delim c = (c = cp CHR ''/'' \<or> c = cp CHR ''?'' \<or> c = cp CHR ''#'')"

text \<open>\<open>_splitnetloc(url, start)\<close>: the network location ends at the first of \<open>/?#\<close>.\<close>

definition splitnetloc :: "pystr \<Rightarrow> nat \<Rightarrow> pystr \<times> pystr" where
  "splitnetloc url start =
     (let rest = drop start url
      in (takeWhile (\<lambda>c. \<not> netloc_delim c) rest, dropWhile (\<lambda>c. \<not> netloc_delim c) rest))"

text \<open>
  The three checks of \<open>urlsplit\<close> on the network location: unbalanced brackets, the
  validation of a bracketed host, and \<open>_checknetloc\<close>, which returns at once for an empty
  or ASCII network location.
\<close>

definition netloc_error :: "pylib \<Rightarrow> pystr \<Rightarrow> py_exception option" where
  "netloc_error L netloc =
     (let lb = cp CHR ''['' \<in> set netloc; rb = cp CHR '']'' \<in> set netloc
      in if (lb \<and> \<not> rb) \<or> (rb \<and> \<not> lb) then Some (ValueError (ustr ''Invalid IPv6 URL''))
         else if lb \<and> rb \<and> bracket_rejects L netloc
           then Some (ValueError (ustr ''Invalid IPv6 URL''))
         else if netloc \<noteq> [] \<and> \<not> list_all (\<lambda>c. c < 128) netloc \<and> nfkc_rejects L netloc
           then Some (ValueError (ustr ''netloc contains invalid characters under NFKC normalization''))
         else None)"

text \<open>\<open>urlsplit(url, scheme)\<close>: scheme, netloc, path, query, fragment.\<close>

definition urlsplit ::
  "pylib \<Rightarrow> pystr \<Rightarrow> pystr \<Rightarrow> py_exception + (pystr \<times> pystr \<times> pystr \<times> pystr \<times> pystr)" where
  "urlsplit L url0 scheme0 =
     (let url1 = filter (\<lambda>c. \<not> unsafe_url_byte c) (lstrip_with c0_or_space url0);
          scheme1 = filter (\<lambda>c. \<not> unsafe_url_byte c)
                      (rstrip_with c0_or_space (lstrip_with c0_or_space scheme0));
          (scheme2, url2) =
            (case find_char (cp CHR '':'') url1 of
               None \<Rightarrow> (scheme1, url1)
             | Some i \<Rightarrow>
                 if 0 < i \<and> ascii_alpha (hd url1) \<and> list_all scheme_char (take i url1)
                 then (lower L (take i url1), drop (i + 1) url1)
                 else (scheme1, url1));
          (netloc, url3) =
            (if take 2 url2 = ustr ''//'' then splitnetloc url2 2 else ([], url2))
      in case netloc_error L netloc of
           Some e \<Rightarrow> Inl e
         | None \<Rightarrow>
             (let (url4, fragment) =
                    (if cp CHR ''#'' \<in> set url3 then split_once (cp CHR ''#'') url3
                     else (url3, []));
                  (url5, query) =
                    (if cp CHR ''?'' \<in> set url4 then split_once (cp CHR ''?'') url4
                     else (url4, []))
              in Inr (scheme2, netloc, url5, query, fragment)))"

text \<open>\<open>_splitparams(url)\<close>, called only where \<open>';' in url\<close>.\<close>

definition splitparams :: "pystr \<Rightarrow> pystr \<times> pystr" where
  "splitparams url =
     (case rfind_char (cp CHR ''/'') url of
        Some k \<Rightarrow>
          (case find_char (cp CHR '';'') (drop k url) of
             None \<Rightarrow> (url, [])
           | Some j \<Rightarrow> (take (k + j) url, drop (k + j + 1) url))
      | None \<Rightarrow>
          (case find_char (cp CHR '';'') url of
             None \<Rightarrow> (url, [])
           | Some i \<Rightarrow> (take i url, drop (i + 1) url)))"

record parse_result =
  scheme :: pystr
  netloc :: pystr
  path :: pystr
  params :: pystr
  query :: pystr
  fragment :: pystr

definition urlparse :: "pylib \<Rightarrow> pystr \<Rightarrow> pystr \<Rightarrow> py_exception + parse_result" where
  "urlparse L url scheme0 =
     (case urlsplit L url scheme0 of
        Inl e \<Rightarrow> Inl e
      | Inr (sch, nl, u, q, f) \<Rightarrow>
          (let (u', ps) =
                 (if sch \<in> set uses_params \<and> cp CHR '';'' \<in> set u then splitparams u
                  else (u, []))
           in Inr \<lparr>scheme = sch, netloc = nl, path = u', params = ps, query = q,
                   fragment = f\<rparr>))"

definition urlunsplit :: "pystr \<Rightarrow> pystr \<Rightarrow> pystr \<Rightarrow> pystr \<Rightarrow> pystr \<Rightarrow> pystr" where
  "urlunsplit sch nl url q f =
     (let url1 =
            (if nl \<noteq> [] \<or> (sch \<noteq> [] \<and> sch \<in> set uses_netloc \<and> take 2 url \<noteq> ustr ''//'')
             then ustr ''//'' @ nl
                    @ (if url \<noteq> [] \<and> take 1 url \<noteq> ustr ''/'' then ustr ''/'' @ url else url)
             else url);
          url2 = (if sch \<noteq> [] then sch @ ustr '':'' @ url1 else url1);
          url3 = (if q \<noteq> [] then url2 @ ustr ''?'' @ q else url2)
      in if f \<noteq> [] then url3 @ ustr ''#'' @ f else url3)"

definition urlunparse :: "parse_result \<Rightarrow> pystr" where
  "urlunparse p =
     urlunsplit (scheme p) (netloc p)
       (if params p \<noteq> [] then path p @ ustr '';'' @ params p else path p)
       (query p) (fragment p)"

text \<open>The pieces of \<open>urljoin\<close>: the slice assignment that drops empty inner segments, and
  the loop that resolves the dot segments.\<close>

definition filter_inner :: "pystr list \<Rightarrow> pystr list" where
  "filter_inner segs =
     (case segs of
        [] \<Rightarrow> []
      | [a] \<Rightarrow> [a]
      | a # b # rest \<Rightarrow> a # filter (\<lambda>s. s \<noteq> []) (butlast (b # rest)) @ [last (b # rest)])"

definition resolve_step :: "pystr list \<Rightarrow> pystr \<Rightarrow> pystr list" where
  "resolve_step resolved seg =
     (if seg = ustr ''..'' then butlast resolved
      else if seg = ustr ''.'' then resolved
      else resolved @ [seg])"

definition urljoin :: "pylib \<Rightarrow> pystr \<Rightarrow> pystr \<Rightarrow> py_exception + pystr" where
  "urljoin L base url =
     (if base = [] then Inr url
      else if url = [] then Inr base
      else case urlparse L base [] of
        Inl e \<Rightarrow> Inl e
      | Inr b \<Rightarrow>
         (case urlparse L url (scheme b) of
            Inl e \<Rightarrow> Inl e
          | Inr u \<Rightarrow>
             if scheme u \<noteq> scheme b \<or> scheme u \<notin> set uses_relative then Inr url
             else if scheme u \<in> set uses_netloc \<and> netloc u \<noteq> [] then Inr (urlunparse u)
             else
               (let nl = (if scheme u \<in> set uses_netloc then netloc b else netloc u)
                in if path u = [] \<and> params u = []
                   then Inr (urlunparse
                          \<lparr>scheme = scheme u, netloc = nl, path = path b, params = params b,
                           query = (if query u = [] then query b else query u),
                           fragment = fragment u\<rparr>)
                   else
                     (let parts = split_on (cp CHR ''/'') (path b);
                          base_parts = (if last parts \<noteq> [] then butlast parts else parts);
                          segments =
                            (if take 1 (path u) = ustr ''/'' then split_on (cp CHR ''/'') (path u)
                             else filter_inner (base_parts @ split_on (cp CHR ''/'') (path u)));
                          resolved0 = foldl resolve_step [] segments;
                          resolved =
                            (if last segments = ustr ''.'' \<or> last segments = ustr ''..''
                             then resolved0 @ [[]] else resolved0);
                          joined = join_with (ustr ''/'') resolved
                      in Inr (urlunparse
                           \<lparr>scheme = scheme u, netloc = nl,
                            path = (if joined = [] then ustr ''/'' else joined),
                            params = params u, query = query u, fragment = fragment u\<rparr>)))))"

text \<open>\<open>urldefrag(url)\<close>: the URL without its fragment, and the fragment.\<close>

definition urldefrag :: "pylib \<Rightarrow> pystr \<Rightarrow> py_exception + (pystr \<times> pystr)" where
  "urldefrag L url =
     (if cp CHR ''#'' \<in> set url
      then (case urlparse L url [] of
              Inl e \<Rightarrow> Inl e
            | Inr p \<Rightarrow> Inr (urlunparse (p\<lparr>fragment := []\<rparr>), fragment p))
      else Inr (url, []))"

section \<open>The resolve step of main\<close>

text \<open>
  Lines 98 to 105 of \<open>d.py\<close>, the specification's \<open>resolve(base_url, href)\<close>:
  \<^verbatim>\<open>
        abs_url = urljoin(page_resp.url, href)
        abs_url, _frag = urldefrag(abs_url)
        scheme = urlparse(abs_url).scheme.lower()
        if scheme not in ("http", "https"):
            continue
  \<close>
  \<open>Inr None\<close> is the \<open>continue\<close> (skip), \<open>Inr (Some abs_url)\<close> the URL that goes on to the
  download, \<open>Inl\<close> an exception of the library.
\<close>

definition resolve :: "pylib \<Rightarrow> pystr \<Rightarrow> pystr \<Rightarrow> py_exception + pystr option" where
  "resolve L base_url href =
     (case urljoin L base_url href of
        Inl e \<Rightarrow> Inl e
      | Inr joined \<Rightarrow>
          (case urldefrag L joined of
             Inl e \<Rightarrow> Inl e
           | Inr (abs_url, frag) \<Rightarrow>
               (case urlparse L abs_url [] of
                  Inl e \<Rightarrow> Inl e
                | Inr p \<Rightarrow>
                    if lower L (scheme p) \<noteq> ustr ''http'' \<and> lower L (scheme p) \<noteq> ustr ''https''
                    then Inr None
                    else Inr (Some abs_url))))"

section \<open>guess_css_name\<close>

text \<open>\<open>os.path.basename\<close> of \<open>posixpath\<close>: the text after the last slash.\<close>

definition basename :: "pystr \<Rightarrow> pystr" where
  "basename p = (case rfind_char (cp CHR ''/'') p of None \<Rightarrow> p | Some i \<Rightarrow> drop (i + 1) p)"

text \<open>
  The specification's words for the same thing, "the last path segment of the URL": what
  follows the last slash of the path, read from the end.
\<close>

definition last_path_segment :: "pystr \<Rightarrow> pystr" where
  "last_path_segment p = rev (takeWhile (\<lambda>c. c \<noteq> cp CHR ''/'') (rev p))"

text \<open>
  The specification's words "ends with \<open>.css\<close> (case-insensitive)", letter by letter: the
  last four characters are a dot, \<open>c\<close> or \<open>C\<close>, and twice \<open>s\<close> or \<open>S\<close>.
\<close>

definition ends_with_css_ci :: "pystr \<Rightarrow> bool" where
  "ends_with_css_ci s =
     (4 \<le> length s \<and>
      (case drop (length s - 4) s of
         [d, a, b, c] \<Rightarrow>
           d = cp CHR ''.'' \<and> (a = cp CHR ''c'' \<or> a = cp CHR ''C'')
           \<and> (b = cp CHR ''s'' \<or> b = cp CHR ''S'') \<and> (c = cp CHR ''s'' \<or> c = cp CHR ''S'')
       | _ \<Rightarrow> False))"

text \<open>
  \<^verbatim>\<open>
  def guess_css_name(css_url: str, idx: int) -> str:
      parsed = urlparse(css_url)
      base = os.path.basename(parsed.path)
      if base and base.lower().endswith(".css"):
          return safe_filename(base)
      if base:
          return safe_filename(base) + ".css"
      return f"style_{idx}.css"
  \<close>
\<close>

definition guess_css_name :: "pylib \<Rightarrow> pystr \<Rightarrow> int \<Rightarrow> py_exception + pystr" where
  "guess_css_name L css_url idx =
     (case urlparse L css_url [] of
        Inl e \<Rightarrow> Inl e
      | Inr parsed \<Rightarrow>
          (let base = basename (path parsed)
           in if base \<noteq> [] \<and> endswith (lower L base) (ustr ''.css'')
              then Inr (safe_filename L base (ustr ''file''))
              else if base \<noteq> [] then Inr (safe_filename L base (ustr ''file'') @ ustr ''.css'')
              else Inr (ustr ''style_'' @ str_int idx @ ustr ''.css'')))"

section \<open>The world of a run\<close>

text \<open>
  What \<open>session.get(url, timeout=t, allow_redirects=True)\<close> returns: the response, or the
  text of the \<open>requests.RequestException\<close> it raises (connection failure, timeout, too
  many redirects, invalid URL). \<open>resp_url\<close> is \<open>resp.url\<close>, the URL after redirects;
  \<open>resp_text\<close> is \<open>resp.text\<close> once \<open>resp.encoding\<close> has been set to
  \<open>resp.apparent_encoding\<close>.
\<close>

record response =
  resp_url :: pystr
  status_code :: int
  reason :: pystr
  resp_text :: pystr

type_synonym network = "pystr \<Rightarrow> int \<Rightarrow> pystr + response"

text \<open>
  The parsed page. \<open>BeautifulSoup(html, "html.parser")\<close> and the selection of
  \<open>soup.find_all("link", rel=...)\<close> belong to a library: the tree is the sequence of its
  nodes in document order, a \<open>Link\<close> being a \<open>link\<close> element that \<open>find_all\<close> selects, with
  its \<open>href\<close> attribute if it has one, and \<open>Other\<close> any other markup. \<open>str(soup)\<close> is
  represented by the tree itself.
\<close>

datatype node = Link "pystr option" | Other pystr

datatype file_content = TextFile pystr | HtmlFile "node list"

text \<open>
  The command line and environment of the process, the network, the parser and the
  library tables, the regular files present before the run, and the paths that the
  operating system refuses to create or write for a reason other than a file standing in
  the way (no permission, a read-only file system, a name that is too long).
\<close>

record world =
  argv :: "pystr list"
  cwd :: pystr
  net :: network
  html_parser :: "pystr \<Rightarrow> node list"
  lib :: pylib
  files0 :: "pystr \<rightharpoonup> file_content"
  os_denies :: "pystr \<Rightarrow> bool"

text \<open>The lines the program prints, with the values formatted into them.\<close>

datatype line =
    ErrFetchPage py_exception
  | WarnCss pystr py_exception
  | OkCss pystr pystr
  | OkHtml pystr
  | Done
  | OutDir pystr
  | CssCount nat

text \<open>
  How a run ends: \<open>main\<close> returns, \<open>sys.exit(n)\<close> is called, or an exception propagates out
  of \<open>main\<close> uncaught.
\<close>

datatype outcome = Returned | Exited int | Raised py_exception

text \<open>
  The state a run threads through \<open>main\<close>: the parsed tree (\<open>soup\<close>), the dictionary
  \<open>downloaded\<close> in insertion order, the directories passed to \<open>ensure_dir\<close>, the files on
  disk, the lines printed to the two streams and the URLs requested from the network.
\<close>

record state =
  tree :: "node list"
  downloaded :: "(pystr \<times> pystr) list"
  made_dirs :: "pystr list"
  files :: "pystr \<rightharpoonup> file_content"
  stdout :: "line list"
  stderr :: "line list"
  requests :: "pystr list"

definition initial_state :: "world \<Rightarrow> state" where
  "initial_state w =
     \<lparr>tree = [], downloaded = [], made_dirs = [], files = files0 w, stdout = [], stderr = [],
      requests = []\<rparr>"

text \<open>\<open>p / name\<close> of \<open>pathlib\<close>, for a relative \<open>name\<close>.\<close>

definition path_join :: "pystr \<Rightarrow> pystr \<Rightarrow> pystr" where
  "path_join p name = (if endswith p (ustr ''/'') then p @ name else p @ ustr ''/'' @ name)"

text \<open>The proper ancestors of a path: what stands before each of its inner slashes.\<close>

definition parent_dirs :: "pystr \<Rightarrow> pystr list" where
  "parent_dirs p = map (\<lambda>n. take n p) (filter (\<lambda>n. p ! n = cp CHR ''/'') [1..<length p])"

text \<open>
  \<^verbatim>\<open>
  def ensure_dir(p: Path) -> None:
      p.mkdir(parents=True, exist_ok=True)
  \<close>
  \<open>Path.mkdir\<close> with these arguments creates the directory and its missing parents and
  accepts a directory that exists. It raises \<open>FileExistsError\<close> where a regular file has
  the name of the directory, \<open>NotADirectoryError\<close> where a regular file has the name of one
  of its parents, and another \<open>OSError\<close> where the operating system refuses. The result is
  the exception, if any, and the state.
\<close>

definition ensure_dir :: "world \<Rightarrow> pystr \<Rightarrow> state \<Rightarrow> py_exception option \<times> state" where
  "ensure_dir w p st =
     (if files st p \<noteq> None then (Some (OSError (ustr ''FileExistsError'')), st)
      else if list_ex (\<lambda>q. files st q \<noteq> None) (parent_dirs p)
        then (Some (OSError (ustr ''NotADirectoryError'')), st)
      else if os_denies w p then (Some (OSError (ustr ''OSError'')), st)
      else (None, st\<lparr>made_dirs := made_dirs st @ [p]\<rparr>))"

text \<open>
  \<open>p.write_text(text, encoding="utf-8")\<close>: it raises \<open>IsADirectoryError\<close> on a directory,
  \<open>NotADirectoryError\<close> where a regular file has the name of a parent, and another
  \<open>OSError\<close> where the operating system refuses; otherwise the file holds the text.
\<close>

definition write_text ::
  "world \<Rightarrow> pystr \<Rightarrow> file_content \<Rightarrow> state \<Rightarrow> py_exception option \<times> state" where
  "write_text w p c st =
     (if p \<in> set (made_dirs st) then (Some (OSError (ustr ''IsADirectoryError'')), st)
      else if list_ex (\<lambda>q. files st q \<noteq> None) (parent_dirs p)
        then (Some (OSError (ustr ''NotADirectoryError'')), st)
      else if os_denies w p then (Some (OSError (ustr ''OSError'')), st)
      else (None, st\<lparr>files := (files st)(p \<mapsto> c)\<rparr>))"

text \<open>\<open>downloaded[k] = v\<close> on a dictionary kept in insertion order, and \<open>len(downloaded)\<close>.\<close>

fun dict_set :: "pystr \<Rightarrow> pystr \<Rightarrow> (pystr \<times> pystr) list \<Rightarrow> (pystr \<times> pystr) list" where
  "dict_set k v [] = [(k, v)]"
| "dict_set k v ((k', v') # d) = (if k' = k then (k, v) # d else (k', v') # dict_set k v d)"

section \<open>fetch\<close>

text \<open>
  \<^verbatim>\<open>
  def fetch(url: str, session: requests.Session, timeout: int = 20) -> requests.Response:
      resp = session.get(url, timeout=timeout, allow_redirects=True)
      resp.raise_for_status()
      return resp
  \<close>
  \<open>raise_for_status\<close> raises \<open>HTTPError\<close>, a \<open>RequestException\<close>, for a status from 400 to 599.
\<close>

definition http_error_text :: "response \<Rightarrow> pystr" where
  "http_error_text r =
     str_int (status_code r)
       @ (if status_code r < 500 then ustr '' Client Error: '' else ustr '' Server Error: '')
       @ reason r @ ustr '' for url: '' @ resp_url r"

definition fetch :: "network \<Rightarrow> pystr \<Rightarrow> int \<Rightarrow> state \<Rightarrow> (py_exception + response) \<times> state" where
  "fetch session url timeout st =
     (let st1 = st\<lparr>requests := requests st @ [url]\<rparr>
      in case session url timeout of
           Inl cause \<Rightarrow> (Inl (RequestException cause), st1)
         | Inr resp \<Rightarrow>
             if 400 \<le> status_code resp \<and> status_code resp < 600
             then (Inl (RequestException (http_error_text resp)), st1)
             else (Inr resp, st1))"

section \<open>Name resolution\<close>

text \<open>
  \<open>main\<close> reads \<open>args.timeout\<close> twice. The object \<open>args\<close> would be the result of
  \<open>parser.parse_args()\<close>, with the attributes \<open>url\<close>, \<open>out\<close> and \<open>timeout\<close>. A scope maps a
  name to such an object where the name is bound to one; looking up an unbound name
  raises \<open>NameError\<close>.
\<close>

record namespace =
  ns_url :: pystr
  ns_out :: pystr
  ns_timeout :: int

type_synonym scope = "string \<rightharpoonup> namespace"

definition lookup_name :: "scope \<Rightarrow> string \<Rightarrow> py_exception + namespace" where
  "lookup_name sc n = (case sc n of None \<Rightarrow> Inl (NameError (ustr n)) | Some v \<Rightarrow> Inr v)"

text \<open>
  The scope in which the body of \<open>main\<close> runs in \<open>d.py\<close>. The five lines that would bind
  \<open>args\<close> are comments, \<open>main\<close> assigns no local variable of that name, and the module
  binds only its imports and its five functions; so no name is bound to a parsed
  argument object.
\<close>

definition module_scope :: scope where
  "module_scope = Map.empty"

section \<open>main\<close>

definition enumerate1 :: "'a list \<Rightarrow> (int \<times> 'a) list" where
  "enumerate1 xs = zip (map int [1..<Suc (length xs)]) xs"

definition is_link :: "node \<Rightarrow> bool" where
  "is_link n = (case n of Link h \<Rightarrow> True | Other m \<Rightarrow> False)"

text \<open>\<open>link_tags\<close>: the positions in the tree of the elements \<open>find_all\<close> returns.\<close>

definition link_tags :: "node list \<Rightarrow> nat list" where
  "link_tags t = map fst (filter (\<lambda>(j, n). is_link n) (zip [0..<length t] t))"

text \<open>\<open>link.get("href")\<close> and \<open>link["href"] = v\<close> for the element at position \<open>j\<close>.\<close>

definition get_href :: "node list \<Rightarrow> nat \<Rightarrow> pystr option" where
  "get_href t j = (case drop j t of Link h # rest \<Rightarrow> h | _ \<Rightarrow> None)"

definition set_href :: "node list \<Rightarrow> nat \<Rightarrow> pystr \<Rightarrow> node list" where
  "set_href t j v = t[j := Link (Some v)]"

text \<open>
  The \<open>try\<close> statements of lines 76 and 108: the body evaluates \<open>args.timeout\<close> and then
  calls \<open>fetch\<close>; the \<open>except\<close> clause matches \<open>requests.RequestException\<close> only.
\<close>

definition try_fetch ::
  "scope \<Rightarrow> network \<Rightarrow> pystr \<Rightarrow> state \<Rightarrow> (py_exception + response) \<times> state" where
  "try_fetch sc session url st =
     (case lookup_name sc ''args'' of
        Inl e \<Rightarrow> (Inl e, st)
      | Inr args \<Rightarrow> fetch session url (ns_timeout args) st)"

definition is_request_exception :: "py_exception \<Rightarrow> bool" where
  "is_request_exception e = (case e of RequestException c \<Rightarrow> True | _ \<Rightarrow> False)"

text \<open>
  One iteration of the loop of lines 93 to 127, for the link with ordinal \<open>i\<close> at position
  \<open>j\<close> of the tree. The result is the exception that leaves the loop, if any, and the
  state. \<open>os.path.relpath(local_path, out_dir)\<close> is \<open>assets/css/\<close> followed by the file name.
\<close>

definition process_link ::
  "scope \<Rightarrow> world \<Rightarrow> response \<Rightarrow> pystr \<Rightarrow> int \<times> nat \<Rightarrow> state \<Rightarrow> py_exception option \<times> state" where
  "process_link sc w page_resp css_dir ij st =
     (let i = fst ij; j = snd ij
      in case get_href (tree st) j of
           None \<Rightarrow> (None, st)
         | Some href \<Rightarrow>
           if href = [] then (None, st)
           else
           (case resolve (lib w) (resp_url page_resp) href of
              Inl e \<Rightarrow> (Some e, st)
            | Inr None \<Rightarrow> (None, st)
            | Inr (Some abs_url) \<Rightarrow>
                (case try_fetch sc (net w) abs_url st of
                   (Inl e, st1) \<Rightarrow>
                     if is_request_exception e
                     then (None, st1\<lparr>stderr := stderr st1 @ [WarnCss abs_url e]\<rparr>)
                     else (Some e, st1)
                 | (Inr css_resp, st1) \<Rightarrow>
                     (case guess_css_name (lib w) abs_url i of
                        Inl e \<Rightarrow> (Some e, st1)
                      | Inr css_name \<Rightarrow>
                          (let css_text = resp_text css_resp;
                               local_path = path_join css_dir css_name
                           in case write_text w local_path (TextFile css_text) st1 of
                                (Some e, st2) \<Rightarrow> (Some e, st2)
                              | (None, st2) \<Rightarrow>
                                  (let local_rel = ustr ''assets/css/'' @ css_name;
                                       st3 = st2\<lparr>downloaded :=
                                               dict_set abs_url local_rel (downloaded st2)\<rparr>;
                                       st4 = st3\<lparr>tree := set_href (tree st3) j local_rel\<rparr>
                                   in (None,
                                       st4\<lparr>stdout := stdout st4 @ [OkCss abs_url local_rel]\<rparr>)))))))"

fun process_links ::
  "scope \<Rightarrow> world \<Rightarrow> response \<Rightarrow> pystr \<Rightarrow> (int \<times> nat) list \<Rightarrow> state \<Rightarrow> py_exception option \<times> state" where
  "process_links sc w page_resp css_dir [] st = (None, st)"
| "process_links sc w page_resp css_dir (ij # rest) st =
     (case process_link sc w page_resp css_dir ij st of
        (Some e, st1) \<Rightarrow> (Some e, st1)
      | (None, st1) \<Rightarrow> process_links sc w page_resp css_dir rest st1)"

text \<open>
  The body of \<open>main\<close>, in a scope \<open>sc\<close>. The command line is not read: the target URL and
  the output directory are the constants of lines 58 and 59.
\<close>

definition target_url :: pystr where
  "target_url = ustr ''https://www.canva.com/design/DAHACvYL71I/293rQA29YER5rxNPb1QX-A/view#1''"

definition out_dir :: "world \<Rightarrow> pystr" where
  "out_dir w = path_join (cwd w) (ustr ''example'')"

definition css_dir :: "world \<Rightarrow> pystr" where
  "css_dir w = path_join (path_join (out_dir w) (ustr ''assets'')) (ustr ''css'')"

definition main_with :: "scope \<Rightarrow> world \<Rightarrow> outcome \<times> state" where
  "main_with sc w =
     (case ensure_dir w (out_dir w) (initial_state w) of
        (Some e, st1) \<Rightarrow> (Raised e, st1)
      | (None, st1) \<Rightarrow>
     (case ensure_dir w (css_dir w) st1 of
        (Some e, st2) \<Rightarrow> (Raised e, st2)
      | (None, st2) \<Rightarrow>
     (case try_fetch sc (net w) target_url st2 of
        (Inl e, st3) \<Rightarrow>
          if is_request_exception e
          then (Exited 1, st3\<lparr>stderr := stderr st3 @ [ErrFetchPage e]\<rparr>)
          else (Raised e, st3)
      | (Inr page_resp, st3) \<Rightarrow>
          (let html = resp_text page_resp;
               st4 = st3\<lparr>tree := html_parser w html\<rparr>
           in case process_links sc w page_resp (css_dir w)
                     (enumerate1 (link_tags (tree st4))) st4 of
                (Some e, st5) \<Rightarrow> (Raised e, st5)
              | (None, st5) \<Rightarrow>
                  (let index_path = path_join (out_dir w) (ustr ''index.html'')
                   in case write_text w index_path (HtmlFile (tree st5)) st5 of
                        (Some e, st6) \<Rightarrow> (Raised e, st6)
                      | (None, st6) \<Rightarrow>
                          (Returned,
                           st6\<lparr>stdout := stdout st6 @
                                 [OkHtml index_path, Done, OutDir (out_dir w),
                                  CssCount (length (downloaded st6))]\<rparr>))))))"

text \<open>\<open>main()\<close> as \<open>d.py\<close> has it.\<close>

definition main :: "world \<Rightarrow> outcome \<times> state" where
  "main w = main_with module_scope w"

text \<open>
  A world refuses the creation of a directory when, before the run, a regular file has its
  name or the name of one of its parents, or the operating system refuses the path.
\<close>

definition mkdir_blocked :: "world \<Rightarrow> pystr \<Rightarrow> bool" where
  "mkdir_blocked w p =
     (files0 w p \<noteq> None \<or> list_ex (\<lambda>q. files0 w q \<noteq> None) (parent_dirs p) \<or> os_denies w p)"

section \<open>Concrete library tables for evaluation\<close>

text \<open>
  One instance of the library tables, used where a statement is evaluated at a concrete
  input: the rows of \<open>str.isalnum\<close> and \<open>str.lower\<close> for U+0080 to U+00FF (for example
  U+00E9, the letter e with acute accent, is alphanumeric), and no rejection by the two
  network-location checks, which are consulted only for a non-ASCII or bracketed
  network location.
\<close>

definition sample_lib :: pylib where
  "sample_lib =
     \<lparr>isalnum_hi = (\<lambda>c. c = 170 \<or> c = 178 \<or> c = 179 \<or> c = 181 \<or> c = 185 \<or> c = 186
          \<or> 188 \<le> c \<and> c \<le> 190 \<or> 192 \<le> c \<and> c \<le> 214 \<or> 216 \<le> c \<and> c \<le> 246
          \<or> 248 \<le> c \<and> c \<le> 255),
      lower_hi = (\<lambda>c. if 192 \<le> c \<and> c \<le> 222 \<and> c \<noteq> 215 then [c + 32] else [c]),
      nfkc_rejects = (\<lambda>n. False),
      bracket_rejects = (\<lambda>n. False)\<rparr>"

section \<open>Concrete worlds for evaluation\<close>

text \<open>
  A world in which the target page is served with status 200 and parses to the tree
  \<open>page\<close>, a stylesheet listed in \<open>css\<close> is served with status 200 and the listed body, and
  every other request fails with a connection error. The process runs in \<open>/work\<close>, with
  no arguments, on an empty disk that refuses nothing.
\<close>

definition sample_world :: "node list \<Rightarrow> (pystr \<times> pystr) list \<Rightarrow> world" where
  "sample_world page css =
     \<lparr>argv = [ustr ''d.py''],
      cwd = ustr ''/work'',
      net = (\<lambda>url t.
        if url = target_url
        then Inr \<lparr>resp_url = target_url, status_code = 200, reason = ustr ''OK'',
                  resp_text = ustr ''<html>''\<rparr>
        else (case map_of css url of
                Some body \<Rightarrow>
                  Inr \<lparr>resp_url = url, status_code = 200, reason = ustr ''OK'', resp_text = body\<rparr>
              | None \<Rightarrow> Inl (ustr ''connection refused''))),
      html_parser = (\<lambda>html. page),
      lib = sample_lib,
      files0 = Map.empty,
      os_denies = (\<lambda>p. False)\<rparr>"

text \<open>The directory of the target URL, against which a relative \<open>href\<close> is resolved.\<close>

definition page_base :: pystr where
  "page_base = ustr ''https://www.canva.com/design/DAHACvYL71I/293rQA29YER5rxNPb1QX-A/''"

text \<open>
  The scope \<open>main\<close> would run in if the commented-out lines were code and the program had
  been started as in the usage line of the module's docstring: \<open>args\<close> is bound, with the
  default timeout. It is used only to show what the body of \<open>main\<close> does once the name
  resolves.
\<close>

definition args_bound :: scope where
  "args_bound = module_scope(''args'' \<mapsto>
     \<lparr>ns_url = ustr ''https://example.com'', ns_out = ustr ''site_dump'', ns_timeout = 20\<rparr>)"

text \<open>A page with two stylesheet links, one relative and one absolute; both are served.\<close>

definition two_links :: "node list" where
  "two_links =
     [Other (ustr ''<head>''), Link (Some (ustr ''css/site.css'')),
      Link (Some (ustr ''https://cdn.example.org/theme.css'')), Other (ustr ''</head>'')]"

definition two_css :: "(pystr \<times> pystr) list" where
  "two_css =
     [(page_base @ ustr ''css/site.css'', ustr ''body{}''),
      (ustr ''https://cdn.example.org/theme.css'', ustr ''p{}'')]"

text \<open>A page with two stylesheet links of which the first cannot be fetched.\<close>

definition failing_links :: "node list" where
  "failing_links = [Link (Some (ustr ''gone.css'')), Link (Some (ustr ''kept.css''))]"

definition failing_css :: "(pystr \<times> pystr) list" where
  "failing_css = [(page_base @ ustr ''kept.css'', ustr ''p{}'')]"

text \<open>
  A page with a link without \<open>href\<close>, a link with an empty \<open>href\<close>, a \<open>data:\<close> link, a
  stylesheet that is served and one that is not.
\<close>

definition mixed_links :: "node list" where
  "mixed_links =
     [Link None, Link (Some []), Link (Some (ustr ''data:text/css,body{}'')),
      Link (Some (ustr ''ok.css'')), Link (Some (ustr ''missing.css''))]"

definition mixed_css :: "(pystr \<times> pystr) list" where
  "mixed_css = [(page_base @ ustr ''ok.css'', ustr ''a{}'')]"

text \<open>A page whose two stylesheets have different URLs and the same file name.\<close>

definition colliding_links :: "node list" where
  "colliding_links = [Link (Some (ustr ''a/style.css'')), Link (Some (ustr ''b/style.css''))]"

definition colliding_css :: "(pystr \<times> pystr) list" where
  "colliding_css =
     [(page_base @ ustr ''a/style.css'', ustr ''a{}''),
      (page_base @ ustr ''b/style.css'', ustr ''b{}'')]"

text \<open>A world in which a regular file named \<open>example\<close> lies in the working directory.\<close>

definition blocked_world :: world where
  "blocked_world =
     (sample_world [] [])\<lparr>files0 := [ustr ''/work/example'' \<mapsto> TextFile (ustr ''notes'')]\<rparr>"

text \<open>A world without network: every request fails.\<close>

definition offline_world :: world where
  "offline_world = (sample_world [] [])\<lparr>net := (\<lambda>url t. Inl (ustr ''connection refused''))\<rparr>"

text \<open>A world in which the program is started as its docstring says.\<close>

definition cli_world :: world where
  "cli_world = (sample_world [] [])
     \<lparr>argv := [ustr ''d.py'', ustr ''https://example.com'', ustr ''--out'', ustr ''site_dump'',
               ustr ''--timeout'', ustr ''5'']\<rparr>"





section \<open>Facts about the string operations\<close>

lemmas char_defs =
  ustr_def cp_def ascii_alpha_def ascii_digit_def isalnum_def word_char_def name_char_def
  ascii_name_char_def isspace_def

lemmas strip_defs = strip_def lstrip_with_def rstrip_with_def

lemma set_re_sub_runs:
  "set (re_sub_runs m repl s) \<subseteq> {c \<in> set s. \<not> m c} \<union> set repl"
proof (induction m repl s rule: re_sub_runs.induct)
  case (1 m repl)
  then show ?case by simp
next
  case (2 m repl c cs)
  show ?case
  proof (cases "m c")
    case True
    have "set (dropWhile m cs) \<subseteq> set cs"
      by (auto dest: set_dropWhileD)
    with 2(1)[OF True] True show ?thesis by auto
  next
    case False
    with 2(2)[OF False] show ?thesis by auto
  qed
qed

lemma re_sub_runs_nonempty:
  "s \<noteq> [] \<Longrightarrow> repl \<noteq> [] \<Longrightarrow> re_sub_runs m repl s \<noteq> []"
  by (cases s) auto

lemma re_sub_runs_id:
  "list_all (\<lambda>c. \<not> m c) s \<Longrightarrow> re_sub_runs m repl s = s"
  by (induction s) auto

lemma re_sub_runs_run:
  assumes "run \<noteq> []" and "list_all m run" and "post = [] \<or> \<not> m (hd post)"
  shows "re_sub_runs m repl (run @ post) = repl @ re_sub_runs m repl post"
proof -
  from assms(1) obtain c cs where run: "run = c # cs" by (cases run) auto
  with assms(2) have mc: "m c" and mcs: "\<And>x. x \<in> set cs \<Longrightarrow> m x"
    by (auto simp: list_all_iff)
  have "dropWhile m (cs @ post) = dropWhile m post"
    using mcs by (rule dropWhile_append2)
  also have "\<dots> = post"
    using assms(3) by (cases post) auto
  finally show ?thesis using mc run by simp
qed

lemma dropWhile_keeps_last:
  assumes "cs \<noteq> []" and "\<not> m (last cs)"
  shows "dropWhile m cs \<noteq> [] \<and> last (dropWhile m cs) = last cs"
  using assms by (induction cs) (auto split: if_splits)

lemma re_sub_runs_append:
  "pre = [] \<or> \<not> m (last pre) \<Longrightarrow>
   re_sub_runs m repl (pre @ rest) = re_sub_runs m repl pre @ re_sub_runs m repl rest"
proof (induction m repl pre rule: re_sub_runs.induct)
  case (1 m repl)
  then show ?case by simp
next
  case (2 m repl c cs)
  show ?case
  proof (cases "m c")
    case True
    with 2(3) have ne: "cs \<noteq> []" and nl: "\<not> m (last cs)"
      by (auto split: if_splits)
    from ne nl have "last cs \<in> set cs" by simp
    then have dw: "dropWhile m (cs @ rest) = dropWhile m cs @ rest"
      using nl by (rule dropWhile_append1)
    have "dropWhile m cs = [] \<or> \<not> m (last (dropWhile m cs))"
      using dropWhile_keeps_last[of cs m] ne nl by simp
    from 2(1)[OF True this] True dw show ?thesis by simp
  next
    case False
    from 2(3) have "cs = [] \<or> \<not> m (last cs)"
      by (auto split: if_splits)
    from 2(2)[OF False this] False show ?thesis by simp
  qed
qed

lemma re_sub_runs_maximal_run:
  assumes "run \<noteq> []" and "list_all m run"
    and "pre = [] \<or> \<not> m (last pre)" and "post = [] \<or> \<not> m (hd post)"
  shows "re_sub_runs m repl (pre @ run @ post) =
         re_sub_runs m repl pre @ repl @ re_sub_runs m repl post"
  using assms re_sub_runs_append[of pre m repl "run @ post"]
    re_sub_runs_run[of run m post repl]
  by simp

lemma set_strip: "set (strip s) \<subseteq> set s"
proof
  fix x
  assume "x \<in> set (strip s)"
  then have "x \<in> set (dropWhile isspace (rev (dropWhile isspace s)))"
    by (simp add: strip_defs)
  then have "x \<in> set (rev (dropWhile isspace s))"
    by (rule set_dropWhileD)
  then have "x \<in> set (dropWhile isspace s)"
    by simp
  then show "x \<in> set s"
    by (rule set_dropWhileD)
qed

lemma strip_trims:
  "\<exists>l r. name = l @ strip name @ r \<and> list_all isspace l \<and> list_all isspace r"
proof -
  let ?l = "takeWhile isspace name"
  let ?m = "dropWhile isspace name"
  let ?r = "rev (takeWhile isspace (rev ?m))"
  have "rev (takeWhile isspace (rev ?m) @ dropWhile isspace (rev ?m)) = ?m"
    by (simp only: takeWhile_dropWhile_id rev_rev_ident)
  then have "rev (dropWhile isspace (rev ?m)) @ ?r = ?m"
    by (simp only: rev_append)
  then have m: "?m = strip name @ ?r"
    by (simp only: strip_defs)
  have "name = ?l @ ?m" by simp
  with m have "name = ?l @ strip name @ ?r" by simp
  moreover have "list_all isspace ?l"
    by (auto simp: list_all_iff dest: set_takeWhileD)
  moreover have "list_all isspace ?r"
    by (auto simp: list_all_iff dest: set_takeWhileD)
  ultimately show ?thesis by blast
qed

lemma strip_ends:
  "strip name = [] \<or> \<not> isspace (hd (strip name)) \<and> \<not> isspace (last (strip name))"
proof (cases "strip name = []")
  case True
  then show ?thesis by simp
next
  case False
  let ?m = "dropWhile isspace name"
  let ?d = "dropWhile isspace (rev ?m)"
  from False have dne: "?d \<noteq> []"
    by (simp add: strip_defs)
  then have hd_d: "\<not> isspace (hd ?d)"
    by (rule hd_dropWhile)
  have last_s: "last (strip name) = hd ?d"
    using dne by (simp add: strip_defs last_rev)
  from dne have mne: "?m \<noteq> []"
    by (cases "?m = []") simp_all
  then have hd_m: "\<not> isspace (hd ?m)"
    by (rule hd_dropWhile)
  have "last (rev ?m) \<in> set ?d"
  proof -
    have "\<not> isspace (last (rev ?m))"
      using hd_m mne by (simp add: last_rev)
    then show ?thesis
      using dropWhile_keeps_last[of "rev ?m" isspace] mne
      by (metis last_in_set rev_is_Nil_conv)
  qed
  have "hd (strip name) = last ?d"
    using dne by (simp add: strip_defs hd_rev)
  also have "\<dots> = last (rev ?m)"
    using dropWhile_keeps_last[of "rev ?m" isspace] hd_m mne by (simp add: last_rev)
  also have "\<dots> = hd ?m"
    using mne by (simp add: last_rev)
  finally show ?thesis
    using hd_m hd_d last_s by simp
qed

lemma name_char_ascii: "c < 128 \<Longrightarrow> name_char L c \<Longrightarrow> ascii_name_char c"
  by (auto simp: name_char_def ascii_name_char_def word_char_def isalnum_def)

lemma ascii_name_char_name_char: "ascii_name_char c \<Longrightarrow> name_char L c"
  by (auto simp: char_defs)

lemma file_chars: "list_all ascii_name_char (ustr ''file'')"
  by (simp add: char_defs)

lemma underscore_name_char: "name_char L (cp CHR ''_'')"
  by (simp add: name_char_def word_char_def)

lemma safe_filename_cases:
  "safe_filename L name (ustr ''file'') =
     (if strip name = [] then ustr ''file''
      else re_sub_runs (\<lambda>c. \<not> name_char L c) (ustr ''_'') (strip name))"
  using re_sub_runs_nonempty[of "strip name" "ustr ''_''" "\<lambda>c. \<not> name_char L c"]
  by (auto simp: safe_filename_def Let_def ustr_def)

lemma safe_filename_chars:
  "list_all (name_char L) (safe_filename L name (ustr ''file''))"
proof -
  let ?s = "re_sub_runs (\<lambda>c. \<not> name_char L c) (ustr ''_'') (strip name)"
  have "set ?s \<subseteq> {c \<in> set (strip name). \<not> \<not> name_char L c} \<union> set (ustr ''_'')"
    by (rule set_re_sub_runs)
  then have "list_all (name_char L) ?s"
    by (auto simp: list_all_iff ustr_def underscore_name_char)
  moreover have "list_all (name_char L) (ustr ''file'')"
    using file_chars by (auto simp: list_all_iff ascii_name_char_name_char)
  ultimately show ?thesis
    by (simp add: safe_filename_def Let_def)
qed

lemma safe_filename_ascii:
  assumes "list_all (\<lambda>c. c < 128) name"
  shows "list_all ascii_name_char (safe_filename L name (ustr ''file''))"
proof -
  let ?s = "re_sub_runs (\<lambda>c. \<not> name_char L c) (ustr ''_'') (strip name)"
  have "set ?s \<subseteq> {c \<in> set (strip name). \<not> \<not> name_char L c} \<union> set (ustr ''_'')"
    by (rule set_re_sub_runs)
  moreover have "\<And>c. c \<in> set (strip name) \<Longrightarrow> c < 128"
    using assms set_strip[of name] by (auto simp: list_all_iff)
  ultimately have "\<And>c. c \<in> set ?s \<Longrightarrow> ascii_name_char c"
    using name_char_ascii[of _ L] by (auto simp: ustr_def ascii_name_char_def)
  then have "list_all ascii_name_char ?s"
    by (simp add: list_all_iff)
  with file_chars show ?thesis
    by (simp add: safe_filename_def Let_def)
qed

lemma safe_filename_nonempty: "safe_filename L name (ustr ''file'') \<noteq> []"
  by (simp add: safe_filename_def Let_def ustr_def)

lemma safe_filename_example:
  "safe_filename L (ustr ''my style!!.css'') (ustr ''file'') = ustr ''my_style_.css''"
  by (simp add: safe_filename_def strip_defs char_defs)

section \<open>Claims about safe_filename\<close>

text \<open>
  C7, as the specification states it: for every input string the output of \<open>sanitize\<close>
  contains only characters of \<open>[A-Za-z0-9_.-]\<close>. The class \<open>\w\<close> of the source is the
  Unicode one, so a letter outside ASCII is kept: \<open>safe_filename\<close> applied to \<open>caf\<close> followed by U+00E9 returns its
  argument, whose last character is not in that set.
\<close>

theorem safe_filename_ascii_only_counterexample:
  "\<not> list_all ascii_name_char
       (safe_filename sample_lib (ustr ''caf'' @ [233]) (ustr ''file''))"
  by (simp add: safe_filename_def strip_defs char_defs sample_lib_def)

text \<open>
  C7, amended: for every input string the output of \<open>safe_filename\<close> (the specification's
  \<open>sanitize\<close>) is non-empty and contains only word characters (\<open>\w\<close>: alphanumeric in
  Unicode, or the underscore), hyphens and dots; when the input is ASCII these are the
  characters \<open>[A-Za-z0-9_.-]\<close>. The input is first trimmed of leading and trailing
  whitespace; the output is \<open>"file"\<close> when nothing is left after trimming; otherwise a
  trimmed input without disallowed characters is returned as it is, and every maximal run
  of disallowed characters is replaced by a single underscore, the text before and after
  it being treated the same way. In particular \<open>sanitize("") = "file"\<close> and
  \<open>sanitize("my style!!.css") = "my_style_.css"\<close>.
\<close>

theorem safe_filename_sanitizes:
  "safe_filename L name (ustr ''file'') \<noteq> []
   \<and> list_all (name_char L) (safe_filename L name (ustr ''file''))
   \<and> (list_all (\<lambda>c. c < 128) name \<longrightarrow>
        list_all ascii_name_char (safe_filename L name (ustr ''file'')))
   \<and> (\<exists>l r. name = l @ strip name @ r \<and> list_all isspace l \<and> list_all isspace r)
   \<and> (strip name = [] \<or> \<not> isspace (hd (strip name)) \<and> \<not> isspace (last (strip name)))
   \<and> (safe_filename L name (ustr ''file'') = ustr ''file'' \<and> strip name = []
        \<or> safe_filename L name (ustr ''file'') =
             re_sub_runs (\<lambda>c. \<not> name_char L c) (ustr ''_'') (strip name)
           \<and> strip name \<noteq> [])
   \<and> (list_all (name_char L) s \<longrightarrow> re_sub_runs (\<lambda>c. \<not> name_char L c) (ustr ''_'') s = s)
   \<and> (run \<noteq> [] \<and> list_all (\<lambda>c. \<not> name_char L c) run
        \<and> (pre = [] \<or> name_char L (last pre)) \<and> (post = [] \<or> name_char L (hd post)) \<longrightarrow>
        re_sub_runs (\<lambda>c. \<not> name_char L c) (ustr ''_'') (pre @ run @ post) =
          re_sub_runs (\<lambda>c. \<not> name_char L c) (ustr ''_'') pre @ ustr ''_''
            @ re_sub_runs (\<lambda>c. \<not> name_char L c) (ustr ''_'') post)
   \<and> safe_filename L [] (ustr ''file'') = ustr ''file''
   \<and> safe_filename L (ustr ''my style!!.css'') (ustr ''file'') = ustr ''my_style_.css''"
proof -
  let ?bad = "\<lambda>c. \<not> name_char L c"
  have id: "list_all (name_char L) s \<longrightarrow> re_sub_runs ?bad (ustr ''_'') s = s"
    using re_sub_runs_id[of ?bad s "ustr ''_''"] by simp
  have run: "run \<noteq> [] \<and> list_all ?bad run
        \<and> (pre = [] \<or> name_char L (last pre)) \<and> (post = [] \<or> name_char L (hd post)) \<longrightarrow>
        re_sub_runs ?bad (ustr ''_'') (pre @ run @ post) =
          re_sub_runs ?bad (ustr ''_'') pre @ ustr ''_'' @ re_sub_runs ?bad (ustr ''_'') post"
    using re_sub_runs_maximal_run[of run ?bad pre post "ustr ''_''"] by simp
  have empty: "safe_filename L [] (ustr ''file'') = ustr ''file''"
    by (simp add: safe_filename_def strip_defs)
  have cases: "safe_filename L name (ustr ''file'') = ustr ''file'' \<and> strip name = []
        \<or> safe_filename L name (ustr ''file'') = re_sub_runs ?bad (ustr ''_'') (strip name)
           \<and> strip name \<noteq> []"
    by (simp add: safe_filename_cases)
  from safe_filename_nonempty safe_filename_chars safe_filename_ascii strip_trims
    strip_ends cases id run empty safe_filename_example
  show ?thesis by blast
qed

theorem safe_filename_sanitizes_witness:
  "list_all (\<lambda>c. c < 128) (ustr '' my style!!.css '')
   \<and> list_all ascii_name_char
        (safe_filename sample_lib (ustr '' my style!!.css '') (ustr ''file''))
   \<and> list_all (name_char sample_lib) (ustr ''style'')
   \<and> re_sub_runs (\<lambda>c. \<not> name_char sample_lib c) (ustr ''_'') (ustr ''style'') = ustr ''style''
   \<and> ustr ''!!'' \<noteq> [] \<and> list_all (\<lambda>c. \<not> name_char sample_lib c) (ustr ''!!'')
   \<and> name_char sample_lib (last (ustr ''my style'')) \<and> name_char sample_lib (hd (ustr ''.css''))
   \<and> re_sub_runs (\<lambda>c. \<not> name_char sample_lib c) (ustr ''_'')
        (ustr ''my style'' @ ustr ''!!'' @ ustr ''.css'') =
      re_sub_runs (\<lambda>c. \<not> name_char sample_lib c) (ustr ''_'') (ustr ''my style'') @ ustr ''_''
        @ re_sub_runs (\<lambda>c. \<not> name_char sample_lib c) (ustr ''_'') (ustr ''.css'')"
proof -
  have h1: "list_all (\<lambda>c. c < 128) (ustr '' my style!!.css '')"
    by (simp add: char_defs)
  have h2: "list_all (name_char sample_lib) (ustr ''style'')"
    by (simp add: char_defs)
  have h3: "ustr ''!!'' \<noteq> [] \<and> list_all (\<lambda>c. \<not> name_char sample_lib c) (ustr ''!!'')
      \<and> (ustr ''my style'' = [] \<or> name_char sample_lib (last (ustr ''my style'')))
      \<and> (ustr ''.css'' = [] \<or> name_char sample_lib (hd (ustr ''.css'')))"
    by (simp add: char_defs)
  have h4: "name_char sample_lib (last (ustr ''my style''))
      \<and> name_char sample_lib (hd (ustr ''.css''))"
    by (simp add: char_defs)
  from h1 h2 h3 h4
    safe_filename_sanitizes[of sample_lib "ustr '' my style!!.css ''" "ustr ''style''"
      "ustr ''!!''" "ustr ''my style''" "ustr ''.css''"]
  show ?thesis by blast
qed

section \<open>Evaluation of the model\<close>

lemmas url_defs =
  urlsplit_def urlparse_def urlunsplit_def urlunparse_def urljoin_def urldefrag_def resolve_def
  splitnetloc_def netloc_error_def splitparams_def find_char_def rfind_char_def split_once_def
  uses_relative_def uses_netloc_def uses_params_def scheme_char_def c0_or_space_def
  unsafe_url_byte_def netloc_delim_def filter_inner_def resolve_step_def lower_def lower_char_def
  endswith_def basename_def guess_css_name_def safe_filename_def str_int_def

lemmas main_defs =
  main_def main_with_def module_scope_def try_fetch_def lookup_name_def is_request_exception_def
  fetch_def process_link_def ensure_dir_def write_text_def initial_state_def out_dir_def
  css_dir_def path_join_def enumerate1_def link_tags_def is_link_def get_href_def set_href_def
  target_url_def http_error_text_def parent_dirs_def

lemmas world_defs = sample_world_def args_bound_def sample_lib_def page_base_def

text \<open>
  In the scope of \<open>d.py\<close> a run is the two \<open>ensure_dir\<close> calls followed by the
  \<open>NameError\<close> of the first \<open>try\<close> statement, whatever the world is.
\<close>

lemma main_unfold:
  "main w =
     (case ensure_dir w (out_dir w) (initial_state w) of
        (Some e, st1) \<Rightarrow> (Raised e, st1)
      | (None, st1) \<Rightarrow>
          (case ensure_dir w (css_dir w) st1 of
             (Some e, st2) \<Rightarrow> (Raised e, st2)
           | (None, st2) \<Rightarrow> (Raised (NameError (ustr ''args'')), st2)))"
  by (simp add: main_def main_with_def module_scope_def try_fetch_def lookup_name_def
      is_request_exception_def split: prod.splits option.splits)

lemma ensure_dir_free:
  assumes "files st = files0 w" and "\<not> mkdir_blocked w p"
  shows "ensure_dir w p st = (None, st\<lparr>made_dirs := made_dirs st @ [p]\<rparr>)"
  using assms by (simp add: ensure_dir_def mkdir_blocked_def)

lemma ensure_dir_blocked:
  assumes "files st = files0 w" and "mkdir_blocked w p"
  shows "\<exists>x. ensure_dir w p st = (Some (OSError x), st)"
  using assms by (auto simp: ensure_dir_def mkdir_blocked_def)

lemma main_eq:
  assumes "\<not> mkdir_blocked w (out_dir w)" and "\<not> mkdir_blocked w (css_dir w)"
  shows "main w =
     (Raised (NameError (ustr ''args'')),
      (initial_state w)\<lparr>made_dirs := [out_dir w, css_dir w]\<rparr>)"
proof -
  have f0: "files (initial_state w) = files0 w"
    by (simp add: initial_state_def)
  have e1: "ensure_dir w (out_dir w) (initial_state w) =
      (None, (initial_state w)\<lparr>made_dirs := [out_dir w]\<rparr>)"
    using ensure_dir_free[OF f0 assms(1)] by (simp add: initial_state_def)
  have "files ((initial_state w)\<lparr>made_dirs := [out_dir w]\<rparr>) = files0 w"
    by (simp add: initial_state_def)
  from ensure_dir_free[OF this assms(2)]
  have e2: "ensure_dir w (css_dir w) ((initial_state w)\<lparr>made_dirs := [out_dir w]\<rparr>) =
      (None, (initial_state w)\<lparr>made_dirs := [out_dir w, css_dir w]\<rparr>)"
    by simp
  show ?thesis
    by (simp add: main_unfold e1 e2)
qed

lemma main_blocked:
  assumes "mkdir_blocked w (out_dir w) \<or> mkdir_blocked w (css_dir w)"
  shows "\<exists>x. main w = (Raised (OSError x), initial_state w)
           \<or> main w = (Raised (OSError x), (initial_state w)\<lparr>made_dirs := [out_dir w]\<rparr>)"
proof (cases "mkdir_blocked w (out_dir w)")
  case True
  have "files (initial_state w) = files0 w"
    by (simp add: initial_state_def)
  from ensure_dir_blocked[OF this True] show ?thesis
    by (auto simp: main_unfold)
next
  case False
  with assms have b: "mkdir_blocked w (css_dir w)" by simp
  have f0: "files (initial_state w) = files0 w"
    by (simp add: initial_state_def)
  have e1: "ensure_dir w (out_dir w) (initial_state w) =
      (None, (initial_state w)\<lparr>made_dirs := [out_dir w]\<rparr>)"
    using ensure_dir_free[OF f0 False] by (simp add: initial_state_def)
  have "files ((initial_state w)\<lparr>made_dirs := [out_dir w]\<rparr>) = files0 w"
    by (simp add: initial_state_def)
  from ensure_dir_blocked[OF this b] show ?thesis
    by (auto simp: main_unfold e1)
qed

lemma main_effects:
  "fst (main w) \<noteq> Exited 1 \<and> fst (main w) \<noteq> Returned
   \<and> requests (snd (main w)) = [] \<and> tree (snd (main w)) = []
   \<and> downloaded (snd (main w)) = [] \<and> files (snd (main w)) = files0 w
   \<and> stdout (snd (main w)) = [] \<and> stderr (snd (main w)) = []"
proof (cases "mkdir_blocked w (out_dir w) \<or> mkdir_blocked w (css_dir w)")
  case True
  from main_blocked[OF this] show ?thesis
    by (auto simp: initial_state_def)
next
  case False
  then have "main w =
     (Raised (NameError (ustr ''args'')),
      (initial_state w)\<lparr>made_dirs := [out_dir w, css_dir w]\<rparr>)"
    by (simp add: main_eq)
  then show ?thesis
    by (simp add: initial_state_def)
qed

lemma sample_world_free: "\<not> mkdir_blocked (sample_world page css) p"
  by (simp add: mkdir_blocked_def sample_world_def list_ex_iff)

lemma sample_world_main:
  "main (sample_world page css) =
     (Raised (NameError (ustr ''args'')),
      (initial_state (sample_world page css))
        \<lparr>made_dirs := [out_dir (sample_world page css), css_dir (sample_world page css)]\<rparr>)"
  by (rule main_eq) (rule sample_world_free)+

text \<open>What the body of \<open>main\<close> does on the concrete worlds once \<open>args\<close> is bound.\<close>

lemma two_links_run:
  "main_with args_bound (sample_world two_links two_css) =
     (Returned,
      \<lparr>tree = [Other (ustr ''<head>''), Link (Some (ustr ''assets/css/site.css'')),
               Link (Some (ustr ''assets/css/theme.css'')), Other (ustr ''</head>'')],
       downloaded =
         [(page_base @ ustr ''css/site.css'', ustr ''assets/css/site.css''),
          (ustr ''https://cdn.example.org/theme.css'', ustr ''assets/css/theme.css'')],
       made_dirs = [ustr ''/work/example'', ustr ''/work/example/assets/css''],
       files = [ustr ''/work/example/assets/css/site.css'' \<mapsto> TextFile (ustr ''body{}''),
                ustr ''/work/example/assets/css/theme.css'' \<mapsto> TextFile (ustr ''p{}''),
                ustr ''/work/example/index.html'' \<mapsto>
                  HtmlFile [Other (ustr ''<head>''), Link (Some (ustr ''assets/css/site.css'')),
                    Link (Some (ustr ''assets/css/theme.css'')), Other (ustr ''</head>'')]],
       stdout =
         [OkCss (page_base @ ustr ''css/site.css'') (ustr ''assets/css/site.css''),
          OkCss (ustr ''https://cdn.example.org/theme.css'') (ustr ''assets/css/theme.css''),
          OkHtml (ustr ''/work/example/index.html''), Done, OutDir (ustr ''/work/example''),
          CssCount 2],
       stderr = [],
       requests =
         [target_url, page_base @ ustr ''css/site.css'',
          ustr ''https://cdn.example.org/theme.css'']\<rparr>)"
  by (simp add: main_defs url_defs strip_defs char_defs Let_def world_defs
      two_links_def two_css_def)

lemma failing_links_run:
  "main_with args_bound (sample_world failing_links failing_css) =
     (Returned,
      \<lparr>tree = [Link (Some (ustr ''gone.css'')), Link (Some (ustr ''assets/css/kept.css''))],
       downloaded = [(page_base @ ustr ''kept.css'', ustr ''assets/css/kept.css'')],
       made_dirs = [ustr ''/work/example'', ustr ''/work/example/assets/css''],
       files = [ustr ''/work/example/assets/css/kept.css'' \<mapsto> TextFile (ustr ''p{}''),
                ustr ''/work/example/index.html'' \<mapsto>
                  HtmlFile [Link (Some (ustr ''gone.css'')),
                            Link (Some (ustr ''assets/css/kept.css''))]],
       stdout =
         [OkCss (page_base @ ustr ''kept.css'') (ustr ''assets/css/kept.css''),
          OkHtml (ustr ''/work/example/index.html''), Done, OutDir (ustr ''/work/example''),
          CssCount 1],
       stderr =
         [WarnCss (page_base @ ustr ''gone.css'') (RequestException (ustr ''connection refused''))],
       requests = [target_url, page_base @ ustr ''gone.css'', page_base @ ustr ''kept.css'']\<rparr>)"
  by (simp add: main_defs url_defs strip_defs char_defs Let_def world_defs
      failing_links_def failing_css_def)

lemma mixed_links_run:
  "main_with args_bound (sample_world mixed_links mixed_css) =
     (Returned,
      \<lparr>tree = [Link None, Link (Some []), Link (Some (ustr ''data:text/css,body{}'')),
               Link (Some (ustr ''assets/css/ok.css'')), Link (Some (ustr ''missing.css''))],
       downloaded = [(page_base @ ustr ''ok.css'', ustr ''assets/css/ok.css'')],
       made_dirs = [ustr ''/work/example'', ustr ''/work/example/assets/css''],
       files = [ustr ''/work/example/assets/css/ok.css'' \<mapsto> TextFile (ustr ''a{}''),
                ustr ''/work/example/index.html'' \<mapsto>
                  HtmlFile [Link None, Link (Some []), Link (Some (ustr ''data:text/css,body{}'')),
                    Link (Some (ustr ''assets/css/ok.css'')), Link (Some (ustr ''missing.css''))]],
       stdout =
         [OkCss (page_base @ ustr ''ok.css'') (ustr ''assets/css/ok.css''),
          OkHtml (ustr ''/work/example/index.html''), Done, OutDir (ustr ''/work/example''),
          CssCount 1],
       stderr =
         [WarnCss (page_base @ ustr ''missing.css'')
            (RequestException (ustr ''connection refused''))],
       requests = [target_url, page_base @ ustr ''ok.css'', page_base @ ustr ''missing.css'']\<rparr>)"
  by (simp add: main_defs url_defs strip_defs char_defs Let_def world_defs
      mixed_links_def mixed_css_def)

lemma colliding_links_run:
  "main_with args_bound (sample_world colliding_links colliding_css) =
     (Returned,
      \<lparr>tree = [Link (Some (ustr ''assets/css/style.css'')),
               Link (Some (ustr ''assets/css/style.css''))],
       downloaded =
         [(page_base @ ustr ''a/style.css'', ustr ''assets/css/style.css''),
          (page_base @ ustr ''b/style.css'', ustr ''assets/css/style.css'')],
       made_dirs = [ustr ''/work/example'', ustr ''/work/example/assets/css''],
       files = [ustr ''/work/example/assets/css/style.css'' \<mapsto> TextFile (ustr ''b{}''),
                ustr ''/work/example/index.html'' \<mapsto>
                  HtmlFile [Link (Some (ustr ''assets/css/style.css'')),
                            Link (Some (ustr ''assets/css/style.css''))]],
       stdout =
         [OkCss (page_base @ ustr ''a/style.css'') (ustr ''assets/css/style.css''),
          OkCss (page_base @ ustr ''b/style.css'') (ustr ''assets/css/style.css''),
          OkHtml (ustr ''/work/example/index.html''), Done, OutDir (ustr ''/work/example''),
          CssCount 2],
       stderr = [],
       requests =
         [target_url, page_base @ ustr ''a/style.css'', page_base @ ustr ''b/style.css'']\<rparr>)"
  by (simp add: main_defs url_defs strip_defs char_defs Let_def world_defs
      colliding_links_def colliding_css_def)

lemma offline_run:
  "main_with args_bound offline_world =
     (Exited 1,
      \<lparr>tree = [], downloaded = [],
       made_dirs = [ustr ''/work/example'', ustr ''/work/example/assets/css''],
       files = Map.empty, stdout = [],
       stderr = [ErrFetchPage (RequestException (ustr ''connection refused''))],
       requests = [target_url]\<rparr>)"
  by (simp add: main_defs Let_def world_defs offline_world_def char_defs endswith_def)

lemma sample_world_files0: "files0 (sample_world page css) = Map.empty"
  by (simp add: sample_world_def)

lemma offline_world_facts:
  "files0 offline_world = Map.empty"
  "net offline_world url t = Inl (ustr ''connection refused'')"
  by (simp_all add: offline_world_def sample_world_def)

lemma offline_world_main:
  "main offline_world =
     (Raised (NameError (ustr ''args'')),
      (initial_state offline_world)
        \<lparr>made_dirs := [out_dir offline_world, css_dir offline_world]\<rparr>)"
  by (rule main_eq)
     (simp_all add: mkdir_blocked_def offline_world_def sample_world_def list_ex_iff)

lemma cli_world_main:
  "main cli_world =
     (Raised (NameError (ustr ''args'')),
      (initial_state cli_world)\<lparr>made_dirs := [out_dir cli_world, css_dir cli_world]\<rparr>)"
  by (rule main_eq)
     (simp_all add: mkdir_blocked_def cli_world_def sample_world_def list_ex_iff)

lemma blocked_world_main:
  "main blocked_world =
     (Raised (OSError (ustr ''FileExistsError'')), initial_state blocked_world)"
  by (simp add: main_unfold ensure_dir_def initial_state_def blocked_world_def out_dir_def
      path_join_def endswith_def sample_world_def ustr_def cp_def)

section \<open>Claims about main\<close>

text \<open>
  C1, as it is stated: every run of \<open>main\<close> reaches \<open>args.timeout\<close> and ends in an uncaught
  \<open>NameError\<close>. Where a regular file named \<open>example\<close> lies in the working directory, the
  first \<open>ensure_dir\<close> call raises \<open>FileExistsError\<close> at line 62: the run ends there, before
  line 77, and not in a \<open>NameError\<close>.
\<close>

theorem main_name_error_counterexample:
  "files0 blocked_world (ustr ''/work/example'') = Some (TextFile (ustr ''notes''))
   \<and> out_dir blocked_world = ustr ''/work/example''
   \<and> fst (main blocked_world) = Raised (OSError (ustr ''FileExistsError''))
   \<and> fst (main blocked_world) \<noteq> Raised (NameError (ustr ''args''))
   \<and> made_dirs (snd (main blocked_world)) = []"
proof -
  have "files0 blocked_world (ustr ''/work/example'') = Some (TextFile (ustr ''notes''))"
    and "out_dir blocked_world = ustr ''/work/example''"
    by (simp_all add: blocked_world_def out_dir_def path_join_def endswith_def sample_world_def
        ustr_def cp_def)
  moreover have "fst (main blocked_world) = Raised (OSError (ustr ''FileExistsError''))"
    and "fst (main blocked_world) \<noteq> Raised (NameError (ustr ''args''))"
    and "made_dirs (snd (main blocked_world)) = []"
    by (simp_all add: blocked_world_main initial_state_def)
  ultimately show ?thesis by simp
qed

text \<open>
  C1, amended: every run of \<open>main\<close> in which both output directories can be created (or
  exist as directories) reaches \<open>args.timeout\<close> at the fetch of the page, where the name
  \<open>args\<close> is not bound, and ends there in an uncaught \<open>NameError\<close>: it is not a request
  exception, so the handler of the \<open>try\<close> statement is not run. A run in which the
  creation of a directory is refused ends earlier, in the \<open>OSError\<close> of that call. Every
  run, of either kind, ends in an uncaught exception: it neither returns nor calls
  \<open>sys.exit(1)\<close>, and by then no request has been made, no page has been parsed, no file
  has been written and nothing has been printed.
\<close>

theorem main_raises_name_error:
  "lookup_name module_scope ''args'' = Inl (NameError (ustr ''args''))
   \<and> \<not> is_request_exception (NameError (ustr ''args''))
   \<and> (\<not> mkdir_blocked w (out_dir w) \<and> \<not> mkdir_blocked w (css_dir w) \<longrightarrow>
        fst (main w) = Raised (NameError (ustr ''args''))
        \<and> made_dirs (snd (main w)) = [out_dir w, css_dir w])
   \<and> (mkdir_blocked w (out_dir w) \<or> mkdir_blocked w (css_dir w) \<longrightarrow>
        (\<exists>x. fst (main w) = Raised (OSError x))
        \<and> (made_dirs (snd (main w)) = [] \<or> made_dirs (snd (main w)) = [out_dir w]))
   \<and> fst (main w) \<noteq> Exited 1
   \<and> fst (main w) \<noteq> Returned
   \<and> requests (snd (main w)) = []
   \<and> tree (snd (main w)) = []
   \<and> downloaded (snd (main w)) = []
   \<and> files (snd (main w)) = files0 w
   \<and> stdout (snd (main w)) = []
   \<and> stderr (snd (main w)) = []"
proof -
  have a: "lookup_name module_scope ''args'' = Inl (NameError (ustr ''args''))"
    by (simp add: lookup_name_def module_scope_def)
  have b: "\<not> is_request_exception (NameError (ustr ''args''))"
    by (simp add: is_request_exception_def)
  have c: "\<not> mkdir_blocked w (out_dir w) \<and> \<not> mkdir_blocked w (css_dir w) \<longrightarrow>
        fst (main w) = Raised (NameError (ustr ''args''))
        \<and> made_dirs (snd (main w)) = [out_dir w, css_dir w]"
    by (simp add: main_eq)
  have d: "mkdir_blocked w (out_dir w) \<or> mkdir_blocked w (css_dir w) \<longrightarrow>
        (\<exists>x. fst (main w) = Raised (OSError x))
        \<and> (made_dirs (snd (main w)) = [] \<or> made_dirs (snd (main w)) = [out_dir w])"
  proof
    assume "mkdir_blocked w (out_dir w) \<or> mkdir_blocked w (css_dir w)"
    from main_blocked[OF this] show "(\<exists>x. fst (main w) = Raised (OSError x))
        \<and> (made_dirs (snd (main w)) = [] \<or> made_dirs (snd (main w)) = [out_dir w])"
      by (auto simp: initial_state_def)
  qed
  from a b c d main_effects[of w] show ?thesis
    by (intro conjI) (assumption | blast)+
qed

theorem main_raises_name_error_witness:
  "\<not> mkdir_blocked (sample_world two_links two_css) (out_dir (sample_world two_links two_css))
   \<and> \<not> mkdir_blocked (sample_world two_links two_css) (css_dir (sample_world two_links two_css))
   \<and> fst (main (sample_world two_links two_css)) = Raised (NameError (ustr ''args''))
   \<and> made_dirs (snd (main (sample_world two_links two_css))) =
       [out_dir (sample_world two_links two_css), css_dir (sample_world two_links two_css)]
   \<and> requests (snd (main (sample_world two_links two_css))) = []
   \<and> files (snd (main (sample_world two_links two_css))) =
       files0 (sample_world two_links two_css)
   \<and> mkdir_blocked blocked_world (out_dir blocked_world)
   \<and> (\<exists>x. fst (main blocked_world) = Raised (OSError x))
   \<and> requests (snd (main blocked_world)) = []"
proof -
  have h1: "\<not> mkdir_blocked (sample_world two_links two_css)
              (out_dir (sample_world two_links two_css))"
    and h2: "\<not> mkdir_blocked (sample_world two_links two_css)
              (css_dir (sample_world two_links two_css))"
    by (rule sample_world_free)+
  have h3: "mkdir_blocked blocked_world (out_dir blocked_world)"
    by (simp add: mkdir_blocked_def blocked_world_def out_dir_def path_join_def endswith_def
        sample_world_def ustr_def cp_def)
  from h1 h2 h3 main_raises_name_error[of "sample_world two_links two_css"]
    main_raises_name_error[of blocked_world]
  show ?thesis by blast
qed

text \<open>
  C8 on the code: started as the docstring says, with a URL, \<open>--out site_dump\<close> and
  \<open>--timeout 5\<close>, the program does not read its arguments. It ensures \<open>example\<close> under the
  working directory, not \<open>site_dump\<close>, requests nothing and ends in the \<open>NameError\<close>; the
  outcome is the same for every command line.
\<close>

theorem main_ignores_command_line:
  "argv cli_world =
     [ustr ''d.py'', ustr ''https://example.com'', ustr ''--out'', ustr ''site_dump'',
      ustr ''--timeout'', ustr ''5'']
   \<and> fst (main cli_world) = Raised (NameError (ustr ''args''))
   \<and> made_dirs (snd (main cli_world)) = [ustr ''/work/example'', ustr ''/work/example/assets/css'']
   \<and> requests (snd (main cli_world)) = []
   \<and> main (w\<lparr>argv := a\<rparr>) = main w"
proof -
  have same: "main (w\<lparr>argv := a\<rparr>) = main w"
    by (simp add: main_unfold ensure_dir_def out_dir_def css_dir_def initial_state_def)
  have args: "argv cli_world =
     [ustr ''d.py'', ustr ''https://example.com'', ustr ''--out'', ustr ''site_dump'',
      ustr ''--timeout'', ustr ''5'']"
    by (simp add: cli_world_def sample_world_def)
  have dirs: "out_dir cli_world = ustr ''/work/example''"
    "css_dir cli_world = ustr ''/work/example/assets/css''"
    by (simp_all add: out_dir_def css_dir_def path_join_def endswith_def cli_world_def
        sample_world_def ustr_def cp_def)
  have run: "fst (main cli_world) = Raised (NameError (ustr ''args''))"
    "made_dirs (snd (main cli_world)) = [out_dir cli_world, css_dir cli_world]"
    "requests (snd (main cli_world)) = []"
    by (simp_all add: cli_world_main initial_state_def)
  from same args dirs run show ?thesis by simp
qed

text \<open>
  C3 on the code: when the page cannot be fetched the run does not reach the handler. No
  request is made, no error line is printed and the run ends in the \<open>NameError\<close>, not in
  \<open>sys.exit(1)\<close>; and it ends in the same way when the page could be fetched, so a failed
  page fetch is not the only fatal path. With \<open>args\<close> bound the body of \<open>main\<close> does what
  the claim says: one request, the error line with the cause, exit status 1, no file.
\<close>

theorem main_page_fetch_failure:
  "net offline_world target_url 20 = Inl (ustr ''connection refused'')
   \<and> fst (main offline_world) = Raised (NameError (ustr ''args''))
   \<and> stderr (snd (main offline_world)) = []
   \<and> requests (snd (main offline_world)) = []
   \<and> fst (main (sample_world two_links two_css)) = Raised (NameError (ustr ''args''))
   \<and> fst (main_with args_bound offline_world) = Exited 1
   \<and> stderr (snd (main_with args_bound offline_world)) =
       [ErrFetchPage (RequestException (ustr ''connection refused''))]
   \<and> requests (snd (main_with args_bound offline_world)) = [target_url]
   \<and> files (snd (main_with args_bound offline_world)) = Map.empty"
  by (simp add: offline_world_main sample_world_main offline_run initial_state_def
      offline_world_facts sample_world_files0)

text \<open>
  C2 on the code: on a page whose first stylesheet cannot be fetched, no stylesheet is
  requested, no warning is printed and no page is written; the run ends in the
  \<open>NameError\<close>. With \<open>args\<close> bound the body of \<open>main\<close> does what the claim says: the warning
  names the URL and the cause, the second stylesheet is still downloaded, and the first
  link keeps its \<open>href\<close> in the page that is written.
\<close>

theorem main_stylesheet_failure:
  "fst (main (sample_world failing_links failing_css)) = Raised (NameError (ustr ''args''))
   \<and> stderr (snd (main (sample_world failing_links failing_css))) = []
   \<and> requests (snd (main (sample_world failing_links failing_css))) = []
   \<and> files (snd (main (sample_world failing_links failing_css))) = Map.empty
   \<and> fst (main_with args_bound (sample_world failing_links failing_css)) = Returned
   \<and> stderr (snd (main_with args_bound (sample_world failing_links failing_css))) =
       [WarnCss (page_base @ ustr ''gone.css'') (RequestException (ustr ''connection refused''))]
   \<and> files (snd (main_with args_bound (sample_world failing_links failing_css)))
       (ustr ''/work/example/index.html'') =
       Some (HtmlFile [Link (Some (ustr ''gone.css'')), Link (Some (ustr ''assets/css/kept.css''))])
   \<and> files (snd (main_with args_bound (sample_world failing_links failing_css)))
       (ustr ''/work/example/assets/css/kept.css'') = Some (TextFile (ustr ''p{}''))"
  by (simp add: sample_world_main failing_links_run initial_state_def sample_world_files0 ustr_def
      cp_def)

text \<open>
  C4 on the code: on a page with a served stylesheet, a stylesheet that is not served and
  three links that are skipped, the loop is never entered: nothing is recorded in
  \<open>downloaded\<close>, no page is serialized and the run ends in the \<open>NameError\<close>. With \<open>args\<close>
  bound the body of \<open>main\<close> keeps the invariant of the claim: the served stylesheet has its
  local path in \<open>downloaded\<close> and as its \<open>href\<close> in the written page, and the four other
  links keep their \<open>href\<close>.
\<close>

theorem main_mirror_record:
  "fst (main (sample_world mixed_links mixed_css)) = Raised (NameError (ustr ''args''))
   \<and> downloaded (snd (main (sample_world mixed_links mixed_css))) = []
   \<and> files (snd (main (sample_world mixed_links mixed_css))) = Map.empty
   \<and> fst (main_with args_bound (sample_world mixed_links mixed_css)) = Returned
   \<and> downloaded (snd (main_with args_bound (sample_world mixed_links mixed_css))) =
       [(page_base @ ustr ''ok.css'', ustr ''assets/css/ok.css'')]
   \<and> files (snd (main_with args_bound (sample_world mixed_links mixed_css)))
       (ustr ''/work/example/index.html'') =
       Some (HtmlFile
         [Link None, Link (Some []), Link (Some (ustr ''data:text/css,body{}'')),
          Link (Some (ustr ''assets/css/ok.css'')), Link (Some (ustr ''missing.css''))])"
  by (simp add: sample_world_main mixed_links_run initial_state_def sample_world_files0 ustr_def
      cp_def)

text \<open>
  C9 on the code: on a page with a relative and an absolute stylesheet link that are both
  served, no \<open>index.html\<close> and no stylesheet is written, no count is printed and the run
  ends in the \<open>NameError\<close>. With \<open>args\<close> bound the body of \<open>main\<close> does what the claim says:
  both links point under \<open>assets/css/\<close>, both files hold the text of the response, and the
  count is 2.
\<close>

theorem main_two_stylesheets:
  "fst (main (sample_world two_links two_css)) = Raised (NameError (ustr ''args''))
   \<and> files (snd (main (sample_world two_links two_css))) = Map.empty
   \<and> stdout (snd (main (sample_world two_links two_css))) = []
   \<and> fst (main_with args_bound (sample_world two_links two_css)) = Returned
   \<and> files (snd (main_with args_bound (sample_world two_links two_css)))
       (ustr ''/work/example/index.html'') =
       Some (HtmlFile
         [Other (ustr ''<head>''), Link (Some (ustr ''assets/css/site.css'')),
          Link (Some (ustr ''assets/css/theme.css'')), Other (ustr ''</head>'')])
   \<and> files (snd (main_with args_bound (sample_world two_links two_css)))
       (ustr ''/work/example/assets/css/site.css'') = Some (TextFile (ustr ''body{}''))
   \<and> files (snd (main_with args_bound (sample_world two_links two_css)))
       (ustr ''/work/example/assets/css/theme.css'') = Some (TextFile (ustr ''p{}''))
   \<and> last (stdout (snd (main_with args_bound (sample_world two_links two_css)))) = CssCount 2"
  by (simp add: sample_world_main two_links_run initial_state_def sample_world_files0 ustr_def
      cp_def)

text \<open>
  C10 on the code: on a page whose two stylesheets have different URLs and the same file
  name, nothing is downloaded or counted; the run ends in the \<open>NameError\<close>. With \<open>args\<close>
  bound the body of \<open>main\<close> does what the claim says: the file holds the second body, both
  links get the same path, and the count is 2.
\<close>

theorem main_colliding_names:
  "fst (main (sample_world colliding_links colliding_css)) = Raised (NameError (ustr ''args''))
   \<and> files (snd (main (sample_world colliding_links colliding_css))) = Map.empty
   \<and> stdout (snd (main (sample_world colliding_links colliding_css))) = []
   \<and> fst (main_with args_bound (sample_world colliding_links colliding_css)) = Returned
   \<and> files (snd (main_with args_bound (sample_world colliding_links colliding_css)))
       (ustr ''/work/example/assets/css/style.css'') = Some (TextFile (ustr ''b{}''))
   \<and> tree (snd (main_with args_bound (sample_world colliding_links colliding_css))) =
       [Link (Some (ustr ''assets/css/style.css'')), Link (Some (ustr ''assets/css/style.css''))]
   \<and> last (stdout (snd (main_with args_bound (sample_world colliding_links colliding_css)))) =
       CssCount 2"
  by (simp add: sample_world_main colliding_links_run initial_state_def sample_world_files0 ustr_def
      cp_def)

section \<open>Facts about the resolve step and guess_css_name\<close>















lemma basename_last_path_segment: "basename p = last_path_segment p"
proof (cases "cp CHR ''/'' \<in> set p")
  case False
  then have "takeWhile (\<lambda>c. c \<noteq> cp CHR ''/'') (rev p) = rev p"
    by (auto intro: takeWhile_eq_all_conv[THEN iffD2])
  then have "last_path_segment p = p"
    by (simp only: last_path_segment_def rev_rev_ident)
  moreover from False have "basename p = p"
    by (simp add: basename_def rfind_char_def find_char_def)
  ultimately show ?thesis by simp
next
  case True
  let ?t = "takeWhile (\<lambda>c. c \<noteq> cp CHR ''/'') (rev p)"
  let ?d = "dropWhile (\<lambda>c. c \<noteq> cp CHR ''/'') (rev p)"
  from True have "?d \<noteq> []"
    by (simp add: dropWhile_eq_Nil_conv)
  moreover have "length (?t @ ?d) = length p"
    by (simp only: takeWhile_dropWhile_id length_rev)
  ultimately have lt: "length ?t < length p"
    by (cases ?d) auto
  have "rev ?t = rev (take (length ?t) (rev p))"
    using takeWhile_eq_take[of "\<lambda>c. c \<noteq> cp CHR ''/''" "rev p"] by simp
  also have "\<dots> = drop (length p - length ?t) p"
    by (simp add: take_rev)
  finally have "drop (length p - length ?t) p = rev ?t" by simp
  moreover have "length p - 1 - length ?t + 1 = length p - length ?t"
    using lt by simp
  ultimately show ?thesis
    using True
    by (simp add: basename_def rfind_char_def find_char_def last_path_segment_def)
qed

lemma enumerate1_nth:
  "k < length xs \<Longrightarrow> enumerate1 xs ! k = (int k + 1, xs ! k)"
  by (simp add: enumerate1_def del: upt_Suc)

lemma resolve_Some_iff:
  "resolve L base href = Inr (Some u) \<longleftrightarrow>
     (\<exists>joined frag p. urljoin L base href = Inr joined \<and> urldefrag L joined = Inr (u, frag)
        \<and> urlparse L u [] = Inr p
        \<and> (lower L (scheme p) = ustr ''http'' \<or> lower L (scheme p) = ustr ''https''))"
  by (auto simp: resolve_def split: sum.splits prod.splits)




lemma process_link_no_href:
  assumes "get_href (tree st) j = None \<or> get_href (tree st) j = Some []"
  shows "process_link sc w page_resp cdir (i, j) st = (None, st)"
  using assms by (auto simp: process_link_def Let_def)

lemma lower_ascii:
  "list_all (\<lambda>c. c < 128) s \<Longrightarrow>
   lower L s = map (\<lambda>c. if 65 \<le> c \<and> c \<le> 90 then c + 32 else c) s"
  by (induction s) (auto simp: lower_def lower_char_def)

lemma four_elements:
  assumes "length t = 4"
  obtains d a b c where "t = [d, a, b, c]"
proof -
  from assms obtain d t1 where t: "t = d # t1" and "length t1 = 3"
    by (cases t) auto
  then obtain a t2 where t1: "t1 = a # t2" and "length t2 = 2"
    by (cases t1) auto
  then obtain b t3 where t2: "t2 = b # t3" and "length t3 = 1"
    by (cases t2) auto
  then obtain c where "t3 = [c]"
    by (cases t3) auto
  with t t1 t2 have "t = [d, a, b, c]" by simp
  then show ?thesis by (rule that)
qed

lemma endswith_css_ascii:
  assumes "list_all (\<lambda>c. c < 128) s"
  shows "endswith (lower L s) (ustr ''.css'') = ends_with_css_ci s"
proof (cases "4 \<le> length s")
  case False
  then show ?thesis
    by (simp add: endswith_def ends_with_css_ci_def lower_ascii[OF assms] ustr_def)
next
  case True
  let ?f = "\<lambda>c::nat. if 65 \<le> c \<and> c \<le> 90 then c + 32 else c"
  from True have "length (drop (length s - 4) s) = 4" by simp
  then obtain d a b c where t: "drop (length s - 4) s = [d, a, b, c]"
    by (rule four_elements)
  have len: "length (ustr ''.css'') = 4"
    by (simp add: ustr_def)
  have "endswith (lower L s) (ustr ''.css'') =
          (4 \<le> length (map ?f s) \<and> drop (length (map ?f s) - 4) (map ?f s) = ustr ''.css'')"
    unfolding endswith_def lower_ascii[OF assms] len ..
  also have "\<dots> = (map ?f (drop (length s - 4) s) = ustr ''.css'')"
    using True by (simp add: drop_map)
  also have "\<dots> = ends_with_css_ci s"
    using True t by (auto simp: ends_with_css_ci_def ustr_def cp_def)
  finally show ?thesis .
qed

lemma guess_css_name_cases:
  assumes "urlparse L url [] = Inr p"
  shows "guess_css_name L url idx =
     Inr (if last_path_segment (path p) \<noteq> []
             \<and> endswith (lower L (last_path_segment (path p))) (ustr ''.css'')
          then safe_filename L (last_path_segment (path p)) (ustr ''file'')
          else if last_path_segment (path p) \<noteq> []
          then safe_filename L (last_path_segment (path p)) (ustr ''file'') @ ustr ''.css''
          else ustr ''style_'' @ str_int idx @ ustr ''.css'')"
  using assms by (simp add: guess_css_name_def Let_def basename_last_path_segment)

lemma guess_css_name_resolved:
  assumes "resolve L base href = Inr (Some url)"
  shows "\<exists>name. guess_css_name L url idx = Inr name"
proof -
  from assms obtain p where "urlparse L url [] = Inr p"
    by (auto simp: resolve_Some_iff)
  then show ?thesis
    by (simp add: guess_css_name_cases)
qed




section \<open>Claims about the resolve step and guess_css_name\<close>




end
